theory Spec2Isabelle
  imports Complex_Main "HOL-Library.Word" "HOL-Library.Sublist"
begin

section \<open>JavaScript strings\<close>

text \<open>
  A JavaScript string is a sequence of 16-bit UTF-16 code units; \<open>length\<close>,
  \<open>substring\<close>, \<open>includes\<close>, \<open>split\<close>, \<open>replace\<close> and \<open>trim\<close> all work on
  code units. ASCII text of the source is written with \<open>lit\<close>; code units beyond
  ASCII (the emoji of the prompt template) are written as numerals.
\<close>

type_synonym unit16 = "16 word"
type_synonym jstring = "unit16 list"

definition lit :: "string \<Rightarrow> jstring" where
  "lit s = map of_char s"

abbreviation nl :: unit16 where
  "nl \<equiv> 0x0A"

text \<open>\<open>a || b\<close> on a value that is a string or undefined: the empty string is falsy.\<close>

definition or_default :: "jstring option \<Rightarrow> jstring \<Rightarrow> jstring" where
  "or_default v d = (case v of None \<Rightarrow> d | Some s \<Rightarrow> if s = [] then d else s)"

text \<open>\<open>s.includes(sub)\<close>: \<open>sub\<close> occurs in \<open>s\<close> as a contiguous run of code units.\<close>

fun str_includes :: "jstring \<Rightarrow> jstring \<Rightarrow> bool" where
  "str_includes [] sub = (sub = [])"
| "str_includes (c # s) sub = (prefix sub (c # s) \<or> str_includes s sub)"

text \<open>
  \<open>s.split(sep)\<close> for a one-unit separator: the pieces between the separators;
  the result is never empty (\<open>''.split(':')\<close> is \<open>['']\<close>).
\<close>

fun str_split :: "unit16 \<Rightarrow> jstring \<Rightarrow> jstring list" where
  "str_split sep [] = [[]]"
| "str_split sep (c # s) =
     (if c = sep then [] # str_split sep s
      else (case str_split sep s of
              [] \<Rightarrow> [[c]]
            | p # ps \<Rightarrow> (c # p) # ps))"

text \<open>\<open>s.split(':')[0]\<close>: the first piece.\<close>

definition base_name :: "jstring \<Rightarrow> jstring" where
  "base_name s = (case str_split 0x3A s of [] \<Rightarrow> [] | p # _ \<Rightarrow> p)"

text \<open>\<open>s.substring(a, b)\<close> on non-negative integers: the arguments are swapped when
  \<open>a > b\<close> and clamped to the length.\<close>

definition substring :: "jstring \<Rightarrow> nat \<Rightarrow> nat \<Rightarrow> jstring" where
  "substring s a b = take (max a b - min a b) (drop (min a b) s)"

text \<open>\<open>s.replace(/c/g, r)\<close> for a one-unit pattern \<open>c\<close>: every occurrence is replaced.\<close>

definition replace_all :: "unit16 \<Rightarrow> jstring \<Rightarrow> jstring \<Rightarrow> jstring" where
  "replace_all c r s = concat (map (\<lambda>x. if x = c then r else [x]) s)"

text \<open>The white space and line terminators that \<open>String.prototype.trim\<close> strips.\<close>

definition is_space :: "unit16 \<Rightarrow> bool" where
  "is_space c \<longleftrightarrow>
     c = 0x09 \<or> c = 0x0A \<or> c = 0x0B \<or> c = 0x0C \<or> c = 0x0D \<or> c = 0x20 \<or>
     c = 0xA0 \<or> c = 0x1680 \<or> (0x2000 \<le> c \<and> c \<le> 0x200A) \<or>
     c = 0x2028 \<or> c = 0x2029 \<or> c = 0x202F \<or> c = 0x205F \<or> c = 0x3000 \<or>
     c = 0xFEFF"

definition trim :: "jstring \<Rightarrow> jstring" where
  "trim s = rev (dropWhile is_space (rev (dropWhile is_space s)))"

text \<open>The decimal rendering of a non-negative integer in a template literal.\<close>

fun digits :: "nat \<Rightarrow> jstring" where
  "digits n =
     (if n < 10 then [of_nat (48 + n)]
      else digits (n div 10) @ [of_nat (48 + n mod 10)])"

declare digits.simps [simp del]

section \<open>The outside world\<close>

text \<open>The exception of reading a member of \<open>undefined\<close> or \<open>null\<close>, or of calling a
  member that is not a function.\<close>

datatype js_exception = TypeError

text \<open>
  A value of a JSON member, as far as the code tells values apart: \<open>JUndefined\<close> is
  an absent member, \<open>JObject\<close> any object or array. Only a string has a \<open>trim\<close>
  method.
\<close>

datatype jsval =
  JUndefined
| JNull
| JBool bool
| JNum real
| JStr jstring
| JObject

fun truthy :: "jsval \<Rightarrow> bool" where
  "truthy JUndefined = False"
| "truthy JNull = False"
| "truthy (JBool b) = b"
| "truthy (JNum x) = (x \<noteq> 0)"
| "truthy (JStr s) = (s \<noteq> [])"
| "truthy JObject = True"

text \<open>
  A caught failure value, as the code reads it: every member may be absent.
  \<open>err_response\<close> is the reply of an upstream HTTP request that was answered with
  an error status; its body \<open>data\<close> is \<open>None\<close> when it is null or absent, and the
  \<open>message\<close> member of a body need not be there.
\<close>

record upstream_data =
  data_message :: "jstring option"

record upstream_response =
  status :: nat
  data :: "upstream_data option"

record js_error =
  err_response :: "upstream_response option"
  err_code :: "jstring option"
  err_address :: "jstring option"
  err_port :: "nat option"
  err_message :: "jstring option"

text \<open>The catalog reply of \<open>GET /api/tags\<close>: \<open>{models: [{name}, ...]}\<close>, \<open>models\<close>
  possibly absent.\<close>

record model_entry =
  name :: jstring

record tags_data =
  models :: "model_entry list option"

record tags_response =
  tags_data :: tags_data

text \<open>The request and the reply of \<open>POST /api/generate\<close>. A falsy body (null, empty,
  absent) is \<open>None\<close>; the output member \<open>response\<close> of a body is any value, and
  \<open>JUndefined\<close> when the body has no such member (a body that is not an object has
  none).\<close>

record gen_options =
  temperature :: real
  top_p :: real
  max_tokens :: nat

record gen_request =
  req_model :: jstring
  req_prompt :: jstring
  req_stream :: bool
  req_options :: gen_options

record gen_data =
  response :: jsval

record gen_response =
  gen_data :: "gen_data option"

record exec_options =
  maxBuffer :: nat

record exec_output =
  stdout :: jstring
  stderr :: jstring

text \<open>
  The three effects of the module. Each returns \<open>Inl\<close> when the promise rejects
  (axios: no connection, timeout, a status outside 2xx; exec: the process cannot be
  started, exits with a non-zero code or overruns the buffer) and \<open>Inr\<close> when it
  resolves.
\<close>

record world =
  http_get :: "jstring \<Rightarrow> js_error + tags_response"
  http_post :: "jstring \<Rightarrow> gen_request \<Rightarrow> js_error + gen_response"
  exec :: "jstring \<Rightarrow> exec_options \<Rightarrow> js_error + exec_output"

text \<open>The calls the review generator made, in order.\<close>

datatype event =
  HttpPost jstring gen_request
| Exec jstring exec_options

fun is_Exec :: "event \<Rightarrow> bool" where
  "is_Exec (Exec c opts) = True"
| "is_Exec _ = False"

section \<open>lib/ollama-llm.js\<close>

record ollama =
  baseURL :: jstring
  model :: jstring

text \<open>The constructor, from the two environment variables (absent: \<open>None\<close>).\<close>

definition OllamaLLM :: "jstring option \<Rightarrow> jstring option \<Rightarrow> ollama" where
  "OllamaLLM env_base_url env_model =
     \<lparr> baseURL = or_default env_base_url (lit ''http://localhost:11434''),
       model = or_default env_model (lit ''gemma:2b'') \<rparr>"

record pr_context =
  title :: "jstring option"
  description :: "jstring option"
  author :: "jstring option"

record ollama_status =
  running :: bool
  modelAvailable :: bool
  availableModels :: "jstring list option"
  status_error :: "jstring option"

record review_result =
  success :: bool
  review :: "jstring option"
  result_model :: "jstring option"
  result_method :: "jstring option"
  error :: "jstring option"

subsection \<open>buildReviewPrompt\<close>

definition prompt_before_title :: jstring where
  "prompt_before_title =
     lit ''You are a senior software engineer conducting a code review. Analyze this GitHub Pull Request and provide a comprehensive review.''
     @ [nl, nl]
     @ lit ''**Pull Request Context:**'' @ [nl]
     @ lit ''- Title: ''"

definition prompt_before_author :: jstring where
  "prompt_before_author = [nl] @ lit ''- Author: ''"

definition prompt_before_description :: jstring where
  "prompt_before_description = [nl] @ lit ''- Description: ''"

definition prompt_before_diff :: jstring where
  "prompt_before_diff =
     [nl, nl]
     @ lit ''**Code Changes:**'' @ [nl]
     @ lit ''```diff'' @ [nl]"

definition prompt_after_diff :: jstring where
  "prompt_after_diff =
     [nl] @ lit ''```'' @ [nl, nl]
     @ lit ''**Review Guidelines:**'' @ [nl]
     @ lit ''1. Identify potential bugs, security issues, or performance problems'' @ [nl]
     @ lit ''2. Check for code quality and best practices'' @ [nl]
     @ lit ''3. Look for proper error handling and edge cases'' @ [nl]
     @ lit ''4. Evaluate code readability and maintainability'' @ [nl]
     @ lit ''5. Suggest improvements or optimizations'' @ [nl, nl]
     @ lit ''**Please provide your review in the following format:**'' @ [nl, nl]
     @ lit ''## '' @ [0xD83D, 0xDD0D] @ lit '' Code Review Summary'' @ [nl, nl]
     @ lit ''### '' @ [0x2705] @ lit '' Positive Aspects'' @ [nl]
     @ lit ''- [List what's done well]'' @ [nl, nl]
     @ lit ''### '' @ [0x26A0, 0xFE0F] @ lit '' Issues Found'' @ [nl]
     @ lit ''- [List any problems, bugs, or concerns]'' @ [nl, nl]
     @ lit ''### '' @ [0xD83D, 0xDCA1] @ lit '' Suggestions'' @ [nl]
     @ lit ''- [List improvements and recommendations]'' @ [nl, nl]
     @ lit ''### '' @ [0xD83C, 0xDFAF] @ lit '' Overall Assessment'' @ [nl]
     @ lit ''[Brief overall evaluation and recommendation]'' @ [nl, nl]
     @ lit ''Keep your review constructive, specific, and actionable. Focus on the most important issues first.''"

text \<open>The text appended to a cut diff: a line break, then \<open>... (truncated)\<close>.\<close>

definition truncation_suffix :: jstring where
  "truncation_suffix = [nl] @ lit ''... (truncated)''"

text \<open>The expression interpolated between the fences.\<close>

definition embedded_diff :: "jstring \<Rightarrow> jstring" where
  "embedded_diff diffText =
     (if length diffText > 8000 then substring diffText 0 8000 @ truncation_suffix
      else diffText)"

text \<open>A destructured member with the default \<open>''\<close>: the default applies when the
  member is absent.\<close>

definition member_or_empty :: "jstring option \<Rightarrow> jstring" where
  "member_or_empty v = (case v of None \<Rightarrow> [] | Some s \<Rightarrow> s)"

text \<open>The template up to the interpolated diff.\<close>

definition prompt_head :: "pr_context \<Rightarrow> jstring" where
  "prompt_head prContext =
     prompt_before_title @ member_or_empty (title prContext)
     @ prompt_before_author @ member_or_empty (author prContext)
     @ prompt_before_description @ member_or_empty (description prContext)
     @ prompt_before_diff"

definition buildReviewPrompt :: "jstring \<Rightarrow> pr_context \<Rightarrow> jstring" where
  "buildReviewPrompt diffText prContext =
     prompt_head prContext @ embedded_diff diffText @ prompt_after_diff"

subsection \<open>checkOllamaStatus\<close>

text \<open>The body of the \<open>try\<close> block; \<open>Inl\<close> is the exception it throws.\<close>

definition checkOllamaStatus_try :: "world \<Rightarrow> ollama \<Rightarrow> js_error + ollama_status" where
  "checkOllamaStatus_try w self =
     (case http_get w (baseURL self @ lit ''/api/tags'') of
        Inl e \<Rightarrow> Inl e
      | Inr resp \<Rightarrow>
          (let models' = (case models (tags_data resp) of None \<Rightarrow> [] | Some ms \<Rightarrow> ms);
               modelExists = list_ex (\<lambda>m. str_includes (name m) (base_name (model self))) models'
           in Inr \<lparr> running = True,
                    modelAvailable = modelExists,
                    availableModels = Some (map name models'),
                    status_error = None \<rparr>))"

definition checkOllamaStatus :: "world \<Rightarrow> ollama \<Rightarrow> ollama_status" where
  "checkOllamaStatus w self =
     (case checkOllamaStatus_try w self of
        Inr st \<Rightarrow> st
      | Inl e \<Rightarrow> \<lparr> running = False,
                   modelAvailable = False,
                   availableModels = None,
                   status_error = err_message e \<rparr>)"

subsection \<open>generateReviewCLI\<close>

definition escapePrompt :: "jstring \<Rightarrow> jstring" where
  "escapePrompt prompt = replace_all 0x60 [0x5C, 0x60] (replace_all 0x22 [0x5C, 0x22] prompt)"

definition cli_command :: "ollama \<Rightarrow> jstring \<Rightarrow> jstring" where
  "cli_command self prompt =
     lit ''ollama run '' @ model self @ [0x20, 0x22] @ escapePrompt prompt @ [0x22]"

definition cli_options :: exec_options where
  "cli_options = \<lparr> maxBuffer = 1024 * 1024 * 10 \<rparr>"

definition generateReviewCLI ::
  "world \<Rightarrow> ollama \<Rightarrow> jstring \<Rightarrow> pr_context \<Rightarrow> review_result \<times> event list" where
  "generateReviewCLI w self diffText prContext =
     (let prompt = buildReviewPrompt diffText prContext;
          command = cli_command self prompt
      in (case exec w command cli_options of
            Inr out \<Rightarrow>
              if stderr out \<noteq> [] \<and> stdout out = []
              then \<lparr> success = False, review = None, result_model = None,
                     result_method = None, error = Some (stderr out) \<rparr>
              else \<lparr> success = True, review = Some (trim (stdout out)),
                     result_model = Some (model self),
                     result_method = Some (lit ''CLI''), error = None \<rparr>
          | Inl e \<Rightarrow>
              \<lparr> success = False, review = None, result_model = None,
                result_method = None, error = err_message e \<rparr>,
          [Exec command cli_options]))"

subsection \<open>generateReview\<close>

definition gen_url :: "ollama \<Rightarrow> jstring" where
  "gen_url self = baseURL self @ lit ''/api/generate''"

definition gen_body :: "ollama \<Rightarrow> jstring \<Rightarrow> gen_request" where
  "gen_body self prompt =
     \<lparr> req_model = model self,
       req_prompt = prompt,
       req_stream = False,
       req_options = \<lparr> temperature = 0.3, top_p = 0.9, max_tokens = 1000 \<rparr> \<rparr>"

text \<open>What the \<open>try\<close> block of \<open>generateReview\<close> throws: the rejection of the request,
  or an exception of its own code.\<close>

datatype thrown =
  Rejected js_error
| Raised js_exception

text \<open>
  The body of the \<open>try\<close> block. After the test
  \<open>response.data && response.data.response\<close> the output is truthy, and
  \<open>response.data.response.trim()\<close> throws unless it is a string.
\<close>

definition generateReview_try ::
  "world \<Rightarrow> ollama \<Rightarrow> jstring \<Rightarrow> pr_context \<Rightarrow> thrown + review_result" where
  "generateReview_try w self diffText prContext =
     (let prompt = buildReviewPrompt diffText prContext
      in (case http_post w (gen_url self) (gen_body self prompt) of
            Inl e \<Rightarrow> Inl (Rejected e)
          | Inr resp \<Rightarrow>
              (case gen_data resp of
                 None \<Rightarrow>
                   Inr \<lparr> success = False, review = None, result_model = None,
                         result_method = None,
                         error = Some (lit ''No response from Ollama'') \<rparr>
               | Some b \<Rightarrow>
                   if truthy (response b)
                   then (case response b of
                           JStr r \<Rightarrow>
                             Inr \<lparr> success = True, review = Some (trim r),
                                   result_model = Some (model self),
                                   result_method = None, error = None \<rparr>
                         | _ \<Rightarrow> Inl (Raised TypeError))
                   else Inr \<lparr> success = False, review = None, result_model = None,
                              result_method = None,
                              error = Some (lit ''No response from Ollama'') \<rparr>)))"

text \<open>The \<open>catch\<close> block runs the fallback on whatever was thrown.\<close>

definition generateReview ::
  "world \<Rightarrow> ollama \<Rightarrow> jstring \<Rightarrow> pr_context \<Rightarrow> review_result \<times> event list" where
  "generateReview w self diffText prContext =
     (let request = HttpPost (gen_url self)
                      (gen_body self (buildReviewPrompt diffText prContext))
      in (case generateReview_try w self diffText prContext of
            Inr r \<Rightarrow> (r, [request])
          | Inl x \<Rightarrow>
              (let (r, calls) = generateReviewCLI w self diffText prContext
               in (r, request # calls))))"

text \<open>server.js, the analyze route: \<open>method: reviewResult.method || 'API'\<close>.\<close>

definition reported_method :: "review_result \<Rightarrow> jstring" where
  "reported_method reviewResult = or_default (result_method reviewResult) (lit ''API'')"

section \<open>lib/error-handler.js\<close>

record classified_error =
  ce_type :: jstring
  ce_message :: jstring
  ce_suggestion :: jstring

definition suggestions :: "(jstring \<times> jstring) list" where
  "suggestions =
     [(lit ''GITHUB_AUTH'', lit ''Visit http://localhost:5000/auth/login to re-authenticate''),
      (lit ''OLLAMA_DOWN'', lit ''Run: ollama serve''),
      (lit ''MODEL_MISSING'', lit ''Run: ollama pull gemma:2b (or your preferred model)''),
      (lit ''RATE_LIMIT'', lit ''Wait for the rate limit to reset, or use a personal access token''),
      (lit ''INVALID_REPO'', lit ''Check the repository name and your access permissions''),
      (lit ''INVALID_PR'', lit ''Verify the pull request number exists''),
      (lit ''NETWORK_ERROR'', lit ''Check your internet connection and try again'')]"

definition getSuggestion :: "jstring \<Rightarrow> jstring" where
  "getSuggestion type =
     or_default (map_of suggestions type)
       (lit ''Please check the documentation for troubleshooting'')"

definition createError :: "jstring \<Rightarrow> jstring \<Rightarrow> jstring option \<Rightarrow> classified_error" where
  "createError type msg suggestion =
     \<lparr> ce_type = type,
       ce_message = msg,
       ce_suggestion = or_default suggestion (getSuggestion type) \<rparr>"

text \<open>
  The \<open>switch\<close> on the status of an answered upstream request. The branches for 403,
  422 and the default read \<open>data.message\<close>, which throws when the body is null or
  absent; the branches for 401 and 404 do not read the body.
\<close>

definition handle_status :: "nat \<Rightarrow> upstream_data option \<Rightarrow> js_exception + classified_error" where
  "handle_status st d =
     (if st = 401 then
        Inr (createError (lit ''GITHUB_AUTH'')
               (lit ''Invalid or expired GitHub token. Please re-authenticate.'') None)
      else if st = 403 then
        (case d of
           None \<Rightarrow> Inl TypeError
         | Some b \<Rightarrow>
             (case data_message b of
                Some m \<Rightarrow>
                  if m \<noteq> [] \<and> str_includes m (lit ''rate limit'')
                  then Inr (createError (lit ''RATE_LIMIT'') (m @ lit ''. Try again later.'') None)
                  else Inr (createError (lit ''INVALID_REPO'')
                              (lit ''Access denied or repository not found.'') None)
              | None \<Rightarrow>
                  Inr (createError (lit ''INVALID_REPO'')
                         (lit ''Access denied or repository not found.'') None)))
      else if st = 404 then
        Inr (createError (lit ''INVALID_PR'') (lit ''Pull request or repository not found.'') None)
      else if st = 422 then
        (case d of
           None \<Rightarrow> Inl TypeError
         | Some b \<Rightarrow>
             Inr (createError (lit ''INVALID_REPO'')
                    (lit ''GitHub API error: ''
                     @ or_default (data_message b) (lit ''Invalid request'')) None))
      else
        (case d of
           None \<Rightarrow> Inl TypeError
         | Some b \<Rightarrow>
             Inr (createError (lit ''NETWORK_ERROR'')
                    (lit ''GitHub API error ('' @ digits st @ lit ''): ''
                     @ or_default (data_message b) (lit ''Unknown error'')) None)))"

text \<open>
  \<open>handle(error)\<close>. The rules are tried in the order of the source; the two port
  tests, nested in the source under the test of the code and the address, are written
  out as two rules. \<open>Inl\<close> is an exception thrown by the function itself: the status
  rule reads \<open>data.message\<close>, and the timeout rule calls
  \<open>error.message.includes\<close>, which throws when the message is absent and the code is
  not \<open>ECONNABORTED\<close>. The console line and the \<open>context\<close> argument, which
  only feeds it, are not modelled.
\<close>

definition handle :: "js_error \<Rightarrow> js_exception + classified_error" where
  "handle e =
     (case (case err_response e of
              None \<Rightarrow> None
            | Some r \<Rightarrow> if status r \<noteq> 0 then Some r else None) of
        Some r \<Rightarrow> handle_status (status r) (data r)
      | None \<Rightarrow>
          if err_code e = Some (lit ''ECONNREFUSED'')
             \<and> err_address e = Some (lit ''127.0.0.1'')
             \<and> err_port e = Some 11434
          then Inr (createError (lit ''OLLAMA_DOWN'')
                      (lit ''Ollama is not running. Start with: ollama serve'') None)
          else if err_code e = Some (lit ''ECONNREFUSED'')
             \<and> err_address e = Some (lit ''127.0.0.1'')
             \<and> err_port e = Some 5000
          then Inr (createError (lit ''NETWORK_ERROR'')
                      (lit ''Server is not running. Start with: npm start'') None)
          else if err_code e = Some (lit ''ENOTFOUND'') \<or> err_code e = Some (lit ''ECONNRESET'')
          then Inr (createError (lit ''NETWORK_ERROR'')
                      (lit ''Network connection failed. Check your internet connection.'') None)
          else if err_code e = Some (lit ''ECONNABORTED'')
          then Inr (createError (lit ''NETWORK_ERROR'')
                      (lit ''Request timed out. Please try again.'') None)
          else (case err_message e of
                  None \<Rightarrow> Inl TypeError
                | Some m \<Rightarrow>
                    if str_includes m (lit ''timeout'')
                    then Inr (createError (lit ''NETWORK_ERROR'')
                                (lit ''Request timed out. Please try again.'') None)
                    else Inr \<lparr> ce_type = lit ''UNKNOWN_ERROR'',
                               ce_message = or_default (Some m)
                                              (lit ''An unexpected error occurred''),
                               ce_suggestion = lit ''Please check the logs for more details'' \<rparr>))"

section \<open>Concrete environments\<close>

text \<open>A world that gives the same answer to every call of each kind.\<close>

definition fixed_world ::
  "js_error + tags_response \<Rightarrow> js_error + gen_response \<Rightarrow> js_error + exec_output \<Rightarrow> world" where
  "fixed_world g p x = \<lparr> http_get = (\<lambda>url. g), http_post = (\<lambda>url body. p), exec = (\<lambda>cmd opts. x) \<rparr>"

text \<open>The connection to the local inference service is refused.\<close>

definition refused :: js_error where
  "refused =
     \<lparr> err_response = None,
       err_code = Some (lit ''ECONNREFUSED''),
       err_address = Some (lit ''127.0.0.1''),
       err_port = Some 11434,
       err_message = Some (lit ''connect ECONNREFUSED 127.0.0.1:11434'') \<rparr>"

text \<open>An answered request with the given status and no body (\<open>data\<close> is null).\<close>

definition http_failure_no_body :: "nat \<Rightarrow> js_error" where
  "http_failure_no_body st =
     \<lparr> err_response = Some \<lparr> status = st, data = None \<rparr>,
       err_code = Some (lit ''ERR_BAD_RESPONSE''),
       err_address = None,
       err_port = None,
       err_message = Some (lit ''Request failed with status code '' @ digits st) \<rparr>"

text \<open>An answered request with the given status and upstream message.\<close>

definition http_failure :: "nat \<Rightarrow> jstring option \<Rightarrow> js_error" where
  "http_failure st msg =
     \<lparr> err_response = Some \<lparr> status = st, data = Some \<lparr> data_message = msg \<rparr> \<rparr>,
       err_code = Some (lit ''ERR_BAD_RESPONSE''),
       err_address = None,
       err_port = None,
       err_message = Some (lit ''Request failed with status code '' @ digits st) \<rparr>"

text \<open>A failure value with no member at all.\<close>

definition bare_error :: js_error where
  "bare_error =
     \<lparr> err_response = None, err_code = None, err_address = None,
       err_port = None, err_message = None \<rparr>"

definition catalog :: "jstring list \<Rightarrow> tags_response" where
  "catalog names = \<lparr> tags_data = \<lparr> models = Some (map (\<lambda>n. \<lparr> name = n \<rparr>) names) \<rparr> \<rparr>"

definition generated :: "jsval \<Rightarrow> gen_response" where
  "generated v = \<lparr> gen_data = Some \<lparr> response = v \<rparr> \<rparr>"

definition printed :: "jstring \<Rightarrow> jstring \<Rightarrow> exec_output" where
  "printed out err = \<lparr> stdout = out, stderr = err \<rparr>"

definition some_context :: pr_context where
  "some_context =
     \<lparr> title = Some (lit ''Fix login''), description = None, author = Some (lit ''ann'') \<rparr>"

section \<open>Strings: basic facts\<close>

lemma length_lit [simp]: "length (lit s) = length s"
  by (simp add: lit_def)

subsection \<open>Occurrences of a text in a concatenation\<close>

text \<open>A text that does not contain \<open>t\<close> cannot lie across an occurrence of \<open>t\<close>.\<close>

lemma sublist_split_at:
  assumes "t \<notin> set m" and "sublist m (xs @ t # ys)"
  shows "sublist m xs \<or> sublist m ys"
proof -
  have no_prefix: "prefix m2 (t # ys) \<Longrightarrow> set m2 \<subseteq> set m \<Longrightarrow> m2 = []" for m2
    using assms(1) by (cases m2) auto
  from assms(2) consider "sublist m xs" | "sublist m (t # ys)"
    | m1 m2 where "m = m1 @ m2" "suffix m1 xs" "prefix m2 (t # ys)"
    by (auto simp: sublist_append)
  then show ?thesis
  proof cases
    case 1
    then show ?thesis by simp
  next
    case 2
    then have "prefix m (t # ys) \<or> sublist m ys"
      by (simp add: sublist_Cons_right)
    then show ?thesis
      using no_prefix [of m] by auto
  next
    case 3
    then have "m2 = []"
      using no_prefix [of m2] by auto
    with 3 show ?thesis
      by (auto simp: suffix_imp_sublist)
  qed
qed

lemma sublist_through_segment:
  assumes c1: "c1 \<notin> set m" and c2: "c2 \<notin> set m"
    and h: "h \<in> set m" "h \<notin> set p"
    and sub: "sublist m (p @ c1 # x @ c2 # rest)"
  shows "sublist m x \<or> sublist m rest"
proof -
  have "sublist m ((p @ c1 # x) @ c2 # rest)"
    using sub by simp
  then have "sublist m (p @ c1 # x) \<or> sublist m rest"
    by (rule sublist_split_at [OF c2])
  moreover have "sublist m x" if "sublist m (p @ c1 # x)"
  proof -
    from that have "sublist m p \<or> sublist m x"
      by (rule sublist_split_at [OF c1])
    moreover have "\<not> sublist m p"
      using h set_mono_sublist by fastforce
    ultimately show ?thesis by simp
  qed
  ultimately show ?thesis by blast
qed

lemma sublist_mid: "sublist m x \<Longrightarrow> sublist m (a @ x @ b)"
  unfolding sublist_def by (metis append.assoc)


section \<open>The prompt builder\<close>

lemma set_lit_marker:
  "nl \<notin> set (lit ''(truncated)'')" "0x20 \<notin> set (lit ''(truncated)'')"
  "0x28 \<in> set (lit ''(truncated)'')"
  by (simp_all add: lit_def)

lemma before_title_shape:
  "\<exists>p. prompt_before_title = p @ [0x20] \<and> 0x28 \<notin> set p"
  by (simp add: prompt_before_title_def lit_def)

lemma before_author_shape:
  "\<exists>p. prompt_before_author = nl # p @ [0x20] \<and> 0x28 \<notin> set p"
  by (simp add: prompt_before_author_def lit_def)

lemma before_description_shape:
  "\<exists>p. prompt_before_description = nl # p @ [0x20] \<and> 0x28 \<notin> set p"
  by (simp add: prompt_before_description_def lit_def)

lemma before_diff_shape:
  "\<exists>p. prompt_before_diff = nl # p @ [nl] \<and> 0x28 \<notin> set p"
  by (simp add: prompt_before_diff_def lit_def)

lemma after_diff_shape:
  "\<exists>p. prompt_after_diff = nl # p \<and> 0x28 \<notin> set p"
  by (simp add: prompt_after_diff_def lit_def)

lemma marker_in_template:
  assumes "sublist (lit ''(truncated)'') (prompt_head ctx @ x @ prompt_after_diff)"
  shows "sublist (lit ''(truncated)'') (member_or_empty (title ctx))
       \<or> sublist (lit ''(truncated)'') (member_or_empty (author ctx))
       \<or> sublist (lit ''(truncated)'') (member_or_empty (description ctx))
       \<or> sublist (lit ''(truncated)'') x"
proof -
  let ?m = "lit ''(truncated)''"
  obtain p1 where p1: "prompt_before_title = p1 @ [0x20]" "0x28 \<notin> set p1"
    using before_title_shape by blast
  obtain p2 where p2: "prompt_before_author = nl # p2 @ [0x20]" "0x28 \<notin> set p2"
    using before_author_shape by blast
  obtain p3 where p3: "prompt_before_description = nl # p3 @ [0x20]" "0x28 \<notin> set p3"
    using before_description_shape by blast
  obtain p4 where p4: "prompt_before_diff = nl # p4 @ [nl]" "0x28 \<notin> set p4"
    using before_diff_shape by blast
  obtain p5 where p5: "prompt_after_diff = nl # p5" "0x28 \<notin> set p5"
    using after_diff_shape by blast
  let ?t = "member_or_empty (title ctx)"
  let ?a = "member_or_empty (author ctx)"
  let ?d = "member_or_empty (description ctx)"
  let ?r3 = "p4 @ nl # x @ nl # p5"
  let ?r2 = "p3 @ 0x20 # ?d @ nl # ?r3"
  let ?r1 = "p2 @ 0x20 # ?a @ nl # ?r2"
  have "prompt_head ctx @ x @ prompt_after_diff = p1 @ 0x20 # ?t @ nl # ?r1"
    by (simp add: prompt_head_def p1 p2 p3 p4 p5)
  with assms have "sublist ?m (p1 @ 0x20 # ?t @ nl # ?r1)"
    by simp
  then have "sublist ?m ?t \<or> sublist ?m ?r1"
    by (rule sublist_through_segment [OF set_lit_marker(2) set_lit_marker(1) set_lit_marker(3) p1(2)])
  moreover have "sublist ?m ?a \<or> sublist ?m ?r2" if "sublist ?m ?r1"
    using that
    by (rule sublist_through_segment [OF set_lit_marker(2) set_lit_marker(1) set_lit_marker(3) p2(2)])
  moreover have "sublist ?m ?d \<or> sublist ?m ?r3" if "sublist ?m ?r2"
    using that
    by (rule sublist_through_segment [OF set_lit_marker(2) set_lit_marker(1) set_lit_marker(3) p3(2)])
  moreover have "sublist ?m x \<or> sublist ?m p5" if "sublist ?m ?r3"
    using that
    by (rule sublist_through_segment [OF set_lit_marker(1) set_lit_marker(1) set_lit_marker(3) p4(2)])
  moreover have "\<not> sublist ?m p5"
    using p5(2) set_lit_marker(3) set_mono_sublist by fastforce
  ultimately show ?thesis by blast
qed

lemma in_template_marker:
  assumes "sublist m (member_or_empty (title ctx))
       \<or> sublist m (member_or_empty (author ctx))
       \<or> sublist m (member_or_empty (description ctx))
       \<or> sublist m x"
  shows "sublist m (prompt_head ctx @ x @ prompt_after_diff)"
proof -
  have "sublist m (prompt_head ctx @ x @ prompt_after_diff)" if "sublist m x"
    using that by (rule sublist_mid)
  moreover have "sublist m (prompt_head ctx @ r)" if "sublist m (prompt_head ctx)" for r
    using that sublist_mid [of m "prompt_head ctx" "[]" r] by simp
  moreover have "sublist m (prompt_head ctx)" if "sublist m (member_or_empty (title ctx))"
    unfolding prompt_head_def using that by (rule sublist_mid)
  moreover have "sublist m (prompt_head ctx)" if "sublist m (member_or_empty (author ctx))"
    using sublist_mid [OF that, of "prompt_before_title @ member_or_empty (title ctx) @ prompt_before_author"]
    by (simp add: prompt_head_def)
  moreover have "sublist m (prompt_head ctx)" if "sublist m (member_or_empty (description ctx))"
    using sublist_mid [OF that, of "prompt_before_title @ member_or_empty (title ctx) @ prompt_before_author @ member_or_empty (author ctx) @ prompt_before_description"]
    by (simp add: prompt_head_def)
  ultimately show ?thesis using assms by blast
qed

lemma length_prompt_pieces:
  "length prompt_before_title = 166"
  "length prompt_before_author = 11"
  "length prompt_before_description = 16"
  "length prompt_before_diff = 28"
  "length prompt_after_diff = 712"
  "length truncation_suffix = 16"
  by (simp_all add: prompt_before_title_def prompt_before_author_def
      prompt_before_description_def prompt_before_diff_def prompt_after_diff_def
      truncation_suffix_def)

lemma embedded_diff_cases:
  "length d \<le> 8000 \<Longrightarrow> embedded_diff d = d"
  "8000 < length d \<Longrightarrow> embedded_diff d = take 8000 d @ truncation_suffix"
  by (simp_all add: embedded_diff_def substring_def)

lemma length_buildReviewPrompt:
  "length (buildReviewPrompt d ctx) =
     933 + length (member_or_empty (title ctx)) + length (member_or_empty (author ctx))
     + length (member_or_empty (description ctx)) + length (embedded_diff d)"
  by (simp add: buildReviewPrompt_def prompt_head_def length_prompt_pieces)

lemma length_embedded_diff: "length (embedded_diff d) \<le> 8016"
  by (simp add: embedded_diff_def substring_def length_prompt_pieces)


lemma sublist_buildReviewPrompt_iff:
  assumes "length d \<le> 8000"
  shows "sublist (lit ''(truncated)'') (buildReviewPrompt d ctx) \<longleftrightarrow>
           sublist (lit ''(truncated)'') (member_or_empty (title ctx))
         \<or> sublist (lit ''(truncated)'') (member_or_empty (author ctx))
         \<or> sublist (lit ''(truncated)'') (member_or_empty (description ctx))
         \<or> sublist (lit ''(truncated)'') d"
  using marker_in_template [of ctx d] in_template_marker [of "lit ''(truncated)''" ctx d] assms
  by (auto simp: buildReviewPrompt_def embedded_diff_cases)

lemma sublist_truncation_suffix: "sublist (lit ''(truncated)'') truncation_suffix"
proof -
  have eq: "truncation_suffix = (nl # lit ''... '') @ lit ''(truncated)''"
    by (simp add: truncation_suffix_def lit_def)
  show ?thesis
    unfolding eq by (rule sublist_append_leftI)
qed

text \<open>
  Claim C3, as the code has it. The test of the source is \<open>diffText.length > 8000\<close>:
  a diff of at most 8000 code units (8000 included) is embedded verbatim between the
  fences and nothing is appended, so the prompt contains \<open>(truncated)\<close> exactly when
  the diff or a context member already does; a diff of more than 8000 code units is
  cut to its first 8000 code units, followed by a line break and \<open>... (truncated)\<close>.
\<close>

theorem buildReviewPrompt_truncation:
  "(length d \<le> 8000 \<longrightarrow>
      buildReviewPrompt d ctx = prompt_head ctx @ d @ prompt_after_diff \<and>
      sublist d (buildReviewPrompt d ctx) \<and>
      (sublist (lit ''(truncated)'') (buildReviewPrompt d ctx) \<longleftrightarrow>
           sublist (lit ''(truncated)'') (member_or_empty (title ctx))
         \<or> sublist (lit ''(truncated)'') (member_or_empty (author ctx))
         \<or> sublist (lit ''(truncated)'') (member_or_empty (description ctx))
         \<or> sublist (lit ''(truncated)'') d)) \<and>
   (8000 < length d \<longrightarrow>
      buildReviewPrompt d ctx =
        prompt_head ctx @ take 8000 d @ [nl] @ lit ''... (truncated)'' @ prompt_after_diff \<and>
      length (take 8000 d) = 8000 \<and>
      sublist (lit ''(truncated)'') (buildReviewPrompt d ctx))"
proof (intro conjI impI)
  assume short: "length d \<le> 8000"
  then show eq: "buildReviewPrompt d ctx = prompt_head ctx @ d @ prompt_after_diff"
    by (simp add: buildReviewPrompt_def embedded_diff_cases)
  show "sublist d (buildReviewPrompt d ctx)"
    unfolding eq by (rule sublist_appendI)
  show "sublist (lit ''(truncated)'') (buildReviewPrompt d ctx) \<longleftrightarrow>
           sublist (lit ''(truncated)'') (member_or_empty (title ctx))
         \<or> sublist (lit ''(truncated)'') (member_or_empty (author ctx))
         \<or> sublist (lit ''(truncated)'') (member_or_empty (description ctx))
         \<or> sublist (lit ''(truncated)'') d"
    using short by (rule sublist_buildReviewPrompt_iff)
next
  assume long: "8000 < length d"
  then show "buildReviewPrompt d ctx =
        prompt_head ctx @ take 8000 d @ [nl] @ lit ''... (truncated)'' @ prompt_after_diff"
    by (simp add: buildReviewPrompt_def embedded_diff_cases truncation_suffix_def)
  show "length (take 8000 d) = 8000"
    using long by simp
  have "sublist (lit ''(truncated)'') (take 8000 d @ truncation_suffix)"
    using sublist_truncation_suffix sublist_mid [of _ truncation_suffix "take 8000 d" "[]"]
    by simp
  then have "sublist (lit ''(truncated)'') (embedded_diff d)"
    using long by (simp add: embedded_diff_cases)
  then show "sublist (lit ''(truncated)'') (buildReviewPrompt d ctx)"
    unfolding buildReviewPrompt_def by (rule sublist_mid)
qed

text \<open>Concrete inputs: a diff of exactly 8000 code units carries no marker.\<close>

lemma not_sublist_marker_replicate:
  "\<not> sublist (lit ''(truncated)'') (replicate n (0x61 :: unit16))"
proof
  assume "sublist (lit ''(truncated)'') (replicate n (0x61 :: unit16))"
  then have "set (lit ''(truncated)'') \<subseteq> set (replicate n (0x61 :: unit16))"
    by (rule set_mono_sublist)
  moreover have "(0x28 :: unit16) \<in> set (lit ''(truncated)'')"
    by (rule set_lit_marker)
  ultimately have "(0x28 :: unit16) \<in> set (replicate n (0x61 :: unit16))"
    by blast
  then show False by simp
qed

lemma not_sublist_marker_Nil: "\<not> sublist (lit ''(truncated)'') []"
  by (simp add: lit_def)

theorem buildReviewPrompt_truncation_witness:
  "length (lit ''+ok'') \<le> 8000 \<and>
   sublist (lit ''+ok'')
     (buildReviewPrompt (lit ''+ok'') \<lparr> title = Some (lit ''Fix''), description = None, author = Some (lit ''ann'') \<rparr>) \<and>
   \<not> sublist (lit ''(truncated)'')
     (buildReviewPrompt (lit ''+ok'') \<lparr> title = Some (lit ''Fix''), description = None, author = Some (lit ''ann'') \<rparr>) \<and>
   8000 < length (replicate 8001 (0x61 :: unit16)) \<and>
   sublist (lit ''(truncated)'')
     (buildReviewPrompt (replicate 8001 0x61) \<lparr> title = Some (lit ''Fix''), description = None, author = Some (lit ''ann'') \<rparr>)"
proof -
  let ?ctx = "\<lparr> title = Some (lit ''Fix''), description = None, author = Some (lit ''ann'') \<rparr>"
  have short: "length (lit ''+ok'') \<le> 8000"
    by simp
  have long: "8000 < length (replicate 8001 (0x61 :: unit16))"
    by simp
  have inputs:
    "\<not> sublist (lit ''(truncated)'') (member_or_empty (title ?ctx))"
    "\<not> sublist (lit ''(truncated)'') (member_or_empty (author ?ctx))"
    "\<not> sublist (lit ''(truncated)'') (member_or_empty (description ?ctx))"
    "\<not> sublist (lit ''(truncated)'') (lit ''+ok'')"
    by (simp_all add: member_or_empty_def lit_def sublist_Cons_right)
  from buildReviewPrompt_truncation [of "lit ''+ok''" ?ctx] short inputs
  have "sublist (lit ''+ok'') (buildReviewPrompt (lit ''+ok'') ?ctx)"
    and "\<not> sublist (lit ''(truncated)'') (buildReviewPrompt (lit ''+ok'') ?ctx)"
    by blast+
  moreover from buildReviewPrompt_truncation [of "replicate 8001 0x61" ?ctx] long
  have "sublist (lit ''(truncated)'') (buildReviewPrompt (replicate 8001 0x61) ?ctx)"
    by blast
  ultimately show ?thesis
    using short long by blast
qed

theorem buildReviewPrompt_boundary_counterexample:
  "8000 \<le> length (replicate 8000 (0x61 :: unit16)) \<and>
   \<not> sublist (lit ''(truncated)'')
       (buildReviewPrompt (replicate 8000 0x61) \<lparr> title = None, description = None, author = None \<rparr>)"
  using sublist_buildReviewPrompt_iff [of "replicate 8000 0x61" "\<lparr> title = None, description = None, author = None \<rparr>"]
    not_sublist_marker_replicate [of 8000] not_sublist_marker_Nil
  by (simp add: member_or_empty_def)

text \<open>
  Claim C4, as the code has it. The title, the author and the description are embedded
  whole, so the prompt is bounded by 8000 plus the fixed text of the template and of
  the truncation suffix (933 + 16 code units) plus the lengths of the three context
  members; no constant bounds it.
\<close>

theorem buildReviewPrompt_length_bound:
  "length (buildReviewPrompt d ctx) \<le>
     8000 + 949 + length (member_or_empty (title ctx))
     + length (member_or_empty (author ctx))
     + length (member_or_empty (description ctx))"
  using length_embedded_diff [of d] by (simp add: length_buildReviewPrompt)

theorem buildReviewPrompt_length_bound_witness:
  "length (buildReviewPrompt (replicate 9000 0x61)
      \<lparr> title = Some (lit ''Fix''), description = None, author = Some (lit ''ann'') \<rparr>)
   \<le> 8000 + 949 + 3 + 3 + 0"
  using buildReviewPrompt_length_bound [of "replicate 9000 0x61"
      "\<lparr> title = Some (lit ''Fix''), description = None, author = Some (lit ''ann'') \<rparr>"]
  by (simp add: member_or_empty_def)

theorem buildReviewPrompt_unbounded_counterexample:
  "\<not> (\<exists>K. \<forall>d ctx. length (buildReviewPrompt d ctx) \<le> 8000 + K)"
proof
  assume "\<exists>K. \<forall>d ctx. length (buildReviewPrompt d ctx) \<le> 8000 + K"
  then obtain K where bound: "\<And>d ctx. length (buildReviewPrompt d ctx) \<le> 8000 + K"
    by blast
  let ?ctx = "\<lparr> title = Some (replicate (8001 + K) (0x61 :: unit16)), description = None, author = None \<rparr>"
  have "length (buildReviewPrompt [] ?ctx) = 933 + (8001 + K)"
    by (simp add: length_buildReviewPrompt member_or_empty_def embedded_diff_def)
  with bound [of "[]" ?ctx] show False by simp
qed

section \<open>The availability probe\<close>

lemma str_includes_sublist: "str_includes s sub \<longleftrightarrow> sublist sub s"
  by (induction s) (auto simp: sublist_Cons_right)

lemma str_split_first: "str_split sep s = takeWhile (\<lambda>c. c \<noteq> sep) s # tl (str_split sep s)"
  by (induction s) (auto split: list.splits)

lemma base_name_takeWhile: "base_name s = takeWhile (\<lambda>c. c \<noteq> 0x3A) s"
  by (subst base_name_def, subst str_split_first) simp

lemma checkOllamaStatus_resolved:
  assumes "http_get w (baseURL self @ lit ''/api/tags'') = Inr resp"
  shows "checkOllamaStatus w self =
     \<lparr> running = True,
       modelAvailable =
         (\<exists>m \<in> set (case models (tags_data resp) of None \<Rightarrow> [] | Some ms \<Rightarrow> ms).
            sublist (takeWhile (\<lambda>c. c \<noteq> 0x3A) (model self)) (name m)),
       availableModels = Some (map name (case models (tags_data resp) of None \<Rightarrow> [] | Some ms \<Rightarrow> ms)),
       status_error = None \<rparr>"
  using assms
  by (simp add: checkOllamaStatus_def checkOllamaStatus_try_def list_ex_iff
      str_includes_sublist base_name_takeWhile)

text \<open>
  Claim C5, as the code has it. On a resolved catalog request \<open>modelAvailable\<close> holds
  exactly when some listed name contains, anywhere in it, the configured model's base
  name (the portion before the first \<open>:\<close>). A listed model with the same base name
  therefore always matches, whatever the tags; the test is containment in the whole
  listed name, not equality of base names.
\<close>

theorem checkOllamaStatus_modelAvailable:
  assumes "http_get w (baseURL self @ lit ''/api/tags'') = Inr resp"
  shows "(modelAvailable (checkOllamaStatus w self) \<longleftrightarrow>
            (\<exists>m \<in> set (case models (tags_data resp) of None \<Rightarrow> [] | Some ms \<Rightarrow> ms).
               sublist (takeWhile (\<lambda>c. c \<noteq> 0x3A) (model self)) (name m)))
       \<and> ((\<exists>m \<in> set (case models (tags_data resp) of None \<Rightarrow> [] | Some ms \<Rightarrow> ms).
               takeWhile (\<lambda>c. c \<noteq> 0x3A) (name m) = takeWhile (\<lambda>c. c \<noteq> 0x3A) (model self))
            \<longrightarrow> modelAvailable (checkOllamaStatus w self))"
proof -
  have same_base: "sublist (takeWhile P b) a" if "takeWhile P a = takeWhile P b" for P and a b :: jstring
    using sublist_takeWhile [of P a] that by simp
  show ?thesis
    unfolding checkOllamaStatus_resolved [OF assms]
    using same_base by auto
qed

theorem checkOllamaStatus_modelAvailable_witness:
  "http_get (fixed_world (Inr (catalog [lit ''gemma''])) (Inl refused) (Inl refused))
     (baseURL (OllamaLLM None None) @ lit ''/api/tags'') = Inr (catalog [lit ''gemma''])
   \<and> modelAvailable
       (checkOllamaStatus (fixed_world (Inr (catalog [lit ''gemma''])) (Inl refused) (Inl refused))
          (OllamaLLM None None))"
proof -
  let ?w = "fixed_world (Inr (catalog [lit ''gemma''])) (Inl refused) (Inl refused)"
  have get: "http_get ?w (baseURL (OllamaLLM None None) @ lit ''/api/tags'') = Inr (catalog [lit ''gemma''])"
    by (simp add: fixed_world_def)
  have same: "\<exists>m \<in> set (case models (tags_data (catalog [lit ''gemma''])) of None \<Rightarrow> [] | Some ms \<Rightarrow> ms).
      takeWhile (\<lambda>c. c \<noteq> 0x3A) (name m) = takeWhile (\<lambda>c. c \<noteq> 0x3A) (model (OllamaLLM None None))"
    by (simp add: catalog_def OllamaLLM_def or_default_def lit_def)
  have "modelAvailable (checkOllamaStatus ?w (OllamaLLM None None))"
    using checkOllamaStatus_modelAvailable [OF get, THEN conjunct2] same by blast
  with get show ?thesis by blast
qed

text \<open>The listed \<open>codegemma:7b\<close> counts as the configured \<open>gemma:2b\<close>, although the base
  names \<open>codegemma\<close> and \<open>gemma\<close> differ.\<close>

theorem checkOllamaStatus_substring_counterexample:
  "modelAvailable
     (checkOllamaStatus (fixed_world (Inr (catalog [lit ''codegemma:7b''])) (Inl refused) (Inl refused))
        (OllamaLLM None None))
   \<and> base_name (lit ''codegemma:7b'') \<noteq> base_name (model (OllamaLLM None None))
   \<and> base_name (lit ''codegemma:7b'') = lit ''codegemma''
   \<and> base_name (model (OllamaLLM None None)) = lit ''gemma''"
  by (simp add: checkOllamaStatus_def checkOllamaStatus_try_def fixed_world_def catalog_def
      OllamaLLM_def or_default_def base_name_def lit_def)

text \<open>
  Claim C9. When the catalog request is rejected, the exception of the \<open>try\<close> block is
  caught and \<open>checkOllamaStatus\<close> returns the status
  \<open>{running: false, modelAvailable: false, error: error.message}\<close>; the function
  returns a status on every path.
\<close>

theorem checkOllamaStatus_recovers:
  assumes "http_get w (baseURL self @ lit ''/api/tags'') = Inl e"
  shows "checkOllamaStatus_try w self = Inl e
       \<and> checkOllamaStatus w self =
           \<lparr> running = False, modelAvailable = False, availableModels = None,
             status_error = err_message e \<rparr>"
  using assms by (simp add: checkOllamaStatus_def checkOllamaStatus_try_def)

theorem checkOllamaStatus_recovers_witness:
  "http_get (fixed_world (Inl refused) (Inl refused) (Inl refused))
     (baseURL (OllamaLLM None None) @ lit ''/api/tags'') = Inl refused
   \<and> checkOllamaStatus (fixed_world (Inl refused) (Inl refused) (Inl refused)) (OllamaLLM None None) =
       \<lparr> running = False, modelAvailable = False, availableModels = None,
         status_error = Some (lit ''connect ECONNREFUSED 127.0.0.1:11434'') \<rparr>"
proof -
  let ?w = "fixed_world (Inl refused) (Inl refused) (Inl refused)"
  have get: "http_get ?w (baseURL (OllamaLLM None None) @ lit ''/api/tags'') = Inl refused"
    by (simp add: fixed_world_def)
  from checkOllamaStatus_recovers [OF get] get show ?thesis
    by (simp add: refused_def)
qed

section \<open>The review generator\<close>

lemma trim_LGTM: "trim (lit ''LGTM'') = lit ''LGTM''"
  by (simp add: trim_def lit_def is_space_def)

subsection \<open>The command line of the fallback\<close>

lemma escapePrompt_concat:
  "escapePrompt p =
     concat (map (\<lambda>c. if c = 0x22 then [0x5C, 0x22] else if c = 0x60 then [0x5C, 0x60] else [c]) p)"
  by (induction p) (simp_all add: escapePrompt_def replace_all_def)

text \<open>
  Claim C10. The command handed to the subprocess is \<open>ollama run\<close>, the model name, and
  the prompt between two double quotes, in which every double quote and every backtick
  is preceded by a backslash and every other code unit, \<open>$\<close> and the backslash
  included, stands as it is.
\<close>

theorem generateReviewCLI_command:
  "snd (generateReviewCLI w self d ctx) =
     [Exec (lit ''ollama run '' @ model self @ [0x20, 0x22]
            @ concat (map (\<lambda>c. if c = 0x22 then [0x5C, 0x22]
                               else if c = 0x60 then [0x5C, 0x60] else [c])
                        (buildReviewPrompt d ctx))
            @ [0x22])
        \<lparr> maxBuffer = 10485760 \<rparr>]"
  by (simp add: generateReviewCLI_def cli_command_def cli_options_def escapePrompt_concat Let_def)

theorem generateReviewCLI_command_witness:
  "snd (generateReviewCLI (fixed_world (Inl refused) (Inl refused) (Inl refused))
      (OllamaLLM None None) ([0x24, 0x5C, 0x22, 0x60]) some_context) =
     [Exec (lit ''ollama run gemma:2b '' @ [0x22]
            @ concat (map (\<lambda>c. if c = 0x22 then [0x5C, 0x22]
                               else if c = 0x60 then [0x5C, 0x60] else [c])
                        (buildReviewPrompt [0x24, 0x5C, 0x22, 0x60] some_context))
            @ [0x22])
        \<lparr> maxBuffer = 10485760 \<rparr>]
   \<and> escapePrompt [0x24, 0x5C, 0x22, 0x60] = [0x24, 0x5C, 0x5C, 0x22, 0x5C, 0x60]"
proof -
  have "model (OllamaLLM None None) = lit ''gemma:2b''"
    by (simp add: OllamaLLM_def or_default_def lit_def)
  moreover have "escapePrompt [0x24, 0x5C, 0x22, 0x60] = [0x24, 0x5C, 0x5C, 0x22, 0x5C, 0x60]"
    by (simp add: escapePrompt_def replace_all_def)
  ultimately show ?thesis
    using generateReviewCLI_command [of "fixed_world (Inl refused) (Inl refused) (Inl refused)"
        "OllamaLLM None None" "[0x24, 0x5C, 0x22, 0x60]" some_context]
    by (simp add: lit_def)
qed

subsection \<open>The result of the fallback\<close>

lemma generateReviewCLI_resolved:
  assumes "exec w (cli_command self (buildReviewPrompt d ctx)) cli_options = Inr out"
  shows "fst (generateReviewCLI w self d ctx) =
     (if stderr out \<noteq> [] \<and> stdout out = []
      then \<lparr> success = False, review = None, result_model = None,
             result_method = None, error = Some (stderr out) \<rparr>
      else \<lparr> success = True, review = Some (trim (stdout out)),
             result_model = Some (model self),
             result_method = Some (lit ''CLI''), error = None \<rparr>)"
  using assms by (simp add: generateReviewCLI_def Let_def)

lemma generateReviewCLI_rejected:
  assumes "exec w (cli_command self (buildReviewPrompt d ctx)) cli_options = Inl e"
  shows "fst (generateReviewCLI w self d ctx) =
     \<lparr> success = False, review = None, result_model = None,
       result_method = None, error = err_message e \<rparr>"
  using assms by (simp add: generateReviewCLI_def Let_def)

lemma generateReviewCLI_calls:
  "snd (generateReviewCLI w self d ctx) =
     [Exec (cli_command self (buildReviewPrompt d ctx)) cli_options]"
  by (simp add: generateReviewCLI_def Let_def)

text \<open>
  Claim C8, as the code has it. The only failure test on a resolved subprocess call is
  \<open>stderr && !stdout\<close>: the result is successful, with the trimmed standard output
  and the method \<open>CLI\<close>, whenever the call resolves with a non-empty standard output
  or an empty error stream; it is \<open>{success: false, error: stderr}\<close> when the error
  stream is non-empty and the standard output empty, and
  \<open>{success: false, error: error.message}\<close> when the call is rejected. The
  subprocess call is the only call made.
\<close>

theorem generateReviewCLI_outcome:
  "(success (fst (generateReviewCLI w self d ctx)) \<longleftrightarrow>
      (\<exists>out. exec w (cli_command self (buildReviewPrompt d ctx)) cli_options = Inr out
           \<and> (stdout out \<noteq> [] \<or> stderr out = [])))
   \<and> (\<forall>out. exec w (cli_command self (buildReviewPrompt d ctx)) cli_options = Inr out
           \<and> (stdout out \<noteq> [] \<or> stderr out = []) \<longrightarrow>
         fst (generateReviewCLI w self d ctx) =
           \<lparr> success = True, review = Some (trim (stdout out)),
             result_model = Some (model self),
             result_method = Some (lit ''CLI''), error = None \<rparr>)
   \<and> (\<forall>out. exec w (cli_command self (buildReviewPrompt d ctx)) cli_options = Inr out
           \<and> stdout out = [] \<and> stderr out \<noteq> [] \<longrightarrow>
         fst (generateReviewCLI w self d ctx) =
           \<lparr> success = False, review = None, result_model = None,
             result_method = None, error = Some (stderr out) \<rparr>)
   \<and> (\<forall>e. exec w (cli_command self (buildReviewPrompt d ctx)) cli_options = Inl e \<longrightarrow>
         fst (generateReviewCLI w self d ctx) =
           \<lparr> success = False, review = None, result_model = None,
             result_method = None, error = err_message e \<rparr>)
   \<and> snd (generateReviewCLI w self d ctx) =
         [Exec (cli_command self (buildReviewPrompt d ctx)) cli_options]"
proof (cases "exec w (cli_command self (buildReviewPrompt d ctx)) cli_options")
  case (Inl e)
  then show ?thesis
    by (simp add: generateReviewCLI_rejected generateReviewCLI_calls)
next
  case (Inr out)
  then show ?thesis
    by (auto simp: generateReviewCLI_resolved generateReviewCLI_calls)
qed

theorem generateReviewCLI_outcome_witness:
  "exec (fixed_world (Inl refused) (Inl refused) (Inr (printed (lit ''LGTM'') [])))
      (cli_command (OllamaLLM None None) (buildReviewPrompt (lit ''+ok'') some_context)) cli_options
     = Inr (printed (lit ''LGTM'') [])
   \<and> fst (generateReviewCLI (fixed_world (Inl refused) (Inl refused) (Inr (printed (lit ''LGTM'') [])))
        (OllamaLLM None None) (lit ''+ok'') some_context) =
       \<lparr> success = True, review = Some (lit ''LGTM''),
         result_model = Some (lit ''gemma:2b''),
         result_method = Some (lit ''CLI''), error = None \<rparr>
   \<and> exec (fixed_world (Inl refused) (Inl refused) (Inr (printed [] (lit ''pull failed''))))
      (cli_command (OllamaLLM None None) (buildReviewPrompt (lit ''+ok'') some_context)) cli_options
     = Inr (printed [] (lit ''pull failed''))
   \<and> fst (generateReviewCLI (fixed_world (Inl refused) (Inl refused) (Inr (printed [] (lit ''pull failed''))))
        (OllamaLLM None None) (lit ''+ok'') some_context) =
       \<lparr> success = False, review = None, result_model = None,
         result_method = None, error = Some (lit ''pull failed'') \<rparr>
   \<and> exec (fixed_world (Inl refused) (Inl refused) (Inl refused))
      (cli_command (OllamaLLM None None) (buildReviewPrompt (lit ''+ok'') some_context)) cli_options
     = Inl refused
   \<and> fst (generateReviewCLI (fixed_world (Inl refused) (Inl refused) (Inl refused))
        (OllamaLLM None None) (lit ''+ok'') some_context) =
       \<lparr> success = False, review = None, result_model = None,
         result_method = None, error = Some (lit ''connect ECONNREFUSED 127.0.0.1:11434'') \<rparr>"
proof -
  let ?self = "OllamaLLM None None"
  let ?d = "lit ''+ok''"
  let ?cmd = "cli_command ?self (buildReviewPrompt ?d some_context)"
  let ?w1 = "fixed_world (Inl refused) (Inl refused) (Inr (printed (lit ''LGTM'') []))"
  let ?w2 = "fixed_world (Inl refused) (Inl refused) (Inr (printed [] (lit ''pull failed'')))"
  let ?w3 = "fixed_world (Inl refused) (Inl refused) (Inl refused)"
  have e1: "exec ?w1 ?cmd cli_options = Inr (printed (lit ''LGTM'') [])"
    and e2: "exec ?w2 ?cmd cli_options = Inr (printed [] (lit ''pull failed''))"
    and e3: "exec ?w3 ?cmd cli_options = Inl refused"
    by (simp_all add: fixed_world_def)
  have m: "model ?self = lit ''gemma:2b''"
    by (simp add: OllamaLLM_def or_default_def lit_def)
  have o1: "stdout (printed (lit ''LGTM'') []) \<noteq> [] \<or> stderr (printed (lit ''LGTM'') []) = []"
    by (simp add: printed_def)
  have o2: "stdout (printed [] (lit ''pull failed'')) = [] \<and> stderr (printed [] (lit ''pull failed'')) \<noteq> []"
    by (simp add: printed_def lit_def)
  note inst1 = generateReviewCLI_outcome [of ?w1 ?self ?d some_context]
  note inst2 = generateReviewCLI_outcome [of ?w2 ?self ?d some_context]
  note inst3 = generateReviewCLI_outcome [of ?w3 ?self ?d some_context]
  have r1: "fst (generateReviewCLI ?w1 ?self ?d some_context) =
       \<lparr> success = True, review = Some (lit ''LGTM''),
         result_model = Some (lit ''gemma:2b''),
         result_method = Some (lit ''CLI''), error = None \<rparr>"
    using inst1 e1 o1 m trim_LGTM by (simp add: printed_def)
  have r2: "fst (generateReviewCLI ?w2 ?self ?d some_context) =
       \<lparr> success = False, review = None, result_model = None,
         result_method = None, error = Some (lit ''pull failed'') \<rparr>"
    using inst2 e2 o2 by (simp add: printed_def)
  have r3: "fst (generateReviewCLI ?w3 ?self ?d some_context) =
       \<lparr> success = False, review = None, result_model = None,
         result_method = None, error = Some (lit ''connect ECONNREFUSED 127.0.0.1:11434'') \<rparr>"
    using inst3 e3 by (simp add: refused_def)
  from e1 r1 e2 r2 e3 r3 show ?thesis
    by blast
qed

text \<open>A subprocess that resolves without writing anything gives a successful result
  with an empty review.\<close>

theorem generateReviewCLI_silent_counterexample:
  "success (fst (generateReviewCLI (fixed_world (Inl refused) (Inl refused) (Inr (printed [] [])))
      (OllamaLLM None None) (lit ''+ok'') some_context))
   \<and> review (fst (generateReviewCLI (fixed_world (Inl refused) (Inl refused) (Inr (printed [] [])))
      (OllamaLLM None None) (lit ''+ok'') some_context)) = Some []
   \<and> stdout (printed [] []) = []"
  by (simp add: generateReviewCLI_def Let_def fixed_world_def printed_def trim_def)

subsection \<open>The two paths\<close>

lemma generateReview_thrown:
  assumes "generateReview_try w self d ctx = Inl x"
  shows "generateReview w self d ctx =
     (fst (generateReviewCLI w self d ctx),
      [HttpPost (gen_url self) (gen_body self (buildReviewPrompt d ctx)),
       Exec (cli_command self (buildReviewPrompt d ctx)) cli_options])"
  using assms generateReviewCLI_calls [of w self d ctx]
  by (simp add: generateReview_def Let_def split_beta)

lemma generateReview_returned:
  assumes "generateReview_try w self d ctx = Inr r"
  shows "generateReview w self d ctx =
     (r, [HttpPost (gen_url self) (gen_body self (buildReviewPrompt d ctx))])"
  using assms by (simp add: generateReview_def Let_def)

lemma generateReview_try_rejected:
  assumes "http_post w (gen_url self) (gen_body self (buildReviewPrompt d ctx)) = Inl e"
  shows "generateReview_try w self d ctx = Inl (Rejected e)"
  using assms by (simp add: generateReview_try_def Let_def)

lemma generateReview_try_malformed:
  assumes "http_post w (gen_url self) (gen_body self (buildReviewPrompt d ctx)) = Inr resp"
    and "gen_data resp = Some b" and "truthy (response b)" and "\<forall>s. response b \<noteq> JStr s"
  shows "generateReview_try w self d ctx = Inl (Raised TypeError)"
  using assms by (cases "response b") (simp_all add: generateReview_try_def Let_def)

lemma generateReview_try_no_output:
  assumes "http_post w (gen_url self) (gen_body self (buildReviewPrompt d ctx)) = Inr resp"
    and "case gen_data resp of None \<Rightarrow> True | Some b \<Rightarrow> \<not> truthy (response b)"
  shows "generateReview_try w self d ctx =
     Inr \<lparr> success = False, review = None, result_model = None,
           result_method = None, error = Some (lit ''No response from Ollama'') \<rparr>"
  using assms by (simp add: generateReview_try_def Let_def split: option.splits)

lemma generateReview_try_output:
  assumes "http_post w (gen_url self) (gen_body self (buildReviewPrompt d ctx)) = Inr resp"
    and "gen_data resp = Some b" and "response b = JStr s" and "s \<noteq> []"
  shows "generateReview_try w self d ctx =
     Inr \<lparr> success = True, review = Some (trim s), result_model = Some (model self),
           result_method = None, error = None \<rparr>"
  using assms by (simp add: generateReview_try_def Let_def)

lemma generateReview_try_success:
  assumes "generateReview_try w self d ctx = Inr r" and "success r"
  shows "result_method r = None"
  using assms
  by (auto simp: generateReview_try_def Let_def split: sum.splits option.splits if_splits jsval.splits)

lemma generateReviewCLI_success:
  assumes "success (fst (generateReviewCLI w self d ctx))"
  shows "result_method (fst (generateReviewCLI w self d ctx)) = Some (lit ''CLI'')"
  using assms
  by (auto simp: generateReviewCLI_def Let_def split: sum.splits if_splits)

text \<open>
  Claim C1, as the code has it. Whatever the primary path throws, the \<open>catch\<close> block
  runs the fallback and returns its result: this is so when the generation request is
  rejected (no connection, timeout, a status outside 2xx) and when the reply is
  malformed in that its output member is truthy but not a string, so that \<open>trim\<close>
  throws. A reply whose body is absent or whose output member is absent or empty makes
  nothing throw: the result is \<open>{success: false, error: 'No response from Ollama'}\<close>
  after the one HTTP call, and the subprocess is not run.
\<close>

theorem generateReview_fallback:
  "(\<forall>x. generateReview_try w self d ctx = Inl x \<longrightarrow>
       fst (generateReview w self d ctx) = fst (generateReviewCLI w self d ctx)
     \<and> snd (generateReview w self d ctx) =
         [HttpPost (gen_url self) (gen_body self (buildReviewPrompt d ctx)),
          Exec (cli_command self (buildReviewPrompt d ctx)) cli_options])
   \<and> (\<forall>e. http_post w (gen_url self) (gen_body self (buildReviewPrompt d ctx)) = Inl e \<longrightarrow>
       fst (generateReview w self d ctx) = fst (generateReviewCLI w self d ctx)
     \<and> snd (generateReview w self d ctx) =
         [HttpPost (gen_url self) (gen_body self (buildReviewPrompt d ctx)),
          Exec (cli_command self (buildReviewPrompt d ctx)) cli_options])
   \<and> (\<forall>resp b. http_post w (gen_url self) (gen_body self (buildReviewPrompt d ctx)) = Inr resp
         \<and> gen_data resp = Some b \<and> truthy (response b) \<and> (\<forall>s. response b \<noteq> JStr s) \<longrightarrow>
       fst (generateReview w self d ctx) = fst (generateReviewCLI w self d ctx)
     \<and> snd (generateReview w self d ctx) =
         [HttpPost (gen_url self) (gen_body self (buildReviewPrompt d ctx)),
          Exec (cli_command self (buildReviewPrompt d ctx)) cli_options])
   \<and> (\<forall>resp. http_post w (gen_url self) (gen_body self (buildReviewPrompt d ctx)) = Inr resp
         \<and> (case gen_data resp of None \<Rightarrow> True | Some b \<Rightarrow> \<not> truthy (response b)) \<longrightarrow>
       fst (generateReview w self d ctx) =
         \<lparr> success = False, review = None, result_model = None,
           result_method = None, error = Some (lit ''No response from Ollama'') \<rparr>
     \<and> snd (generateReview w self d ctx) =
         [HttpPost (gen_url self) (gen_body self (buildReviewPrompt d ctx))])"
proof (intro conjI allI impI)
  fix x
  assume "generateReview_try w self d ctx = Inl x"
  from generateReview_thrown [OF this]
  show "fst (generateReview w self d ctx) = fst (generateReviewCLI w self d ctx)"
    and "snd (generateReview w self d ctx) =
         [HttpPost (gen_url self) (gen_body self (buildReviewPrompt d ctx)),
          Exec (cli_command self (buildReviewPrompt d ctx)) cli_options]"
    by simp_all
next
  fix e
  assume "http_post w (gen_url self) (gen_body self (buildReviewPrompt d ctx)) = Inl e"
  from generateReview_thrown [OF generateReview_try_rejected [OF this]]
  show "fst (generateReview w self d ctx) = fst (generateReviewCLI w self d ctx)"
    and "snd (generateReview w self d ctx) =
         [HttpPost (gen_url self) (gen_body self (buildReviewPrompt d ctx)),
          Exec (cli_command self (buildReviewPrompt d ctx)) cli_options]"
    by simp_all
next
  fix resp b
  assume "http_post w (gen_url self) (gen_body self (buildReviewPrompt d ctx)) = Inr resp
         \<and> gen_data resp = Some b \<and> truthy (response b) \<and> (\<forall>s. response b \<noteq> JStr s)"
  then have "generateReview_try w self d ctx = Inl (Raised TypeError)"
    using generateReview_try_malformed by blast
  from generateReview_thrown [OF this]
  show "fst (generateReview w self d ctx) = fst (generateReviewCLI w self d ctx)"
    and "snd (generateReview w self d ctx) =
         [HttpPost (gen_url self) (gen_body self (buildReviewPrompt d ctx)),
          Exec (cli_command self (buildReviewPrompt d ctx)) cli_options]"
    by simp_all
next
  fix resp
  assume "http_post w (gen_url self) (gen_body self (buildReviewPrompt d ctx)) = Inr resp
         \<and> (case gen_data resp of None \<Rightarrow> True | Some b \<Rightarrow> \<not> truthy (response b))"
  then have "generateReview_try w self d ctx =
     Inr \<lparr> success = False, review = None, result_model = None,
           result_method = None, error = Some (lit ''No response from Ollama'') \<rparr>"
    using generateReview_try_no_output by blast
  from generateReview_returned [OF this]
  show "fst (generateReview w self d ctx) =
         \<lparr> success = False, review = None, result_model = None,
           result_method = None, error = Some (lit ''No response from Ollama'') \<rparr>"
    and "snd (generateReview w self d ctx) =
         [HttpPost (gen_url self) (gen_body self (buildReviewPrompt d ctx))]"
    by simp_all
qed


theorem generateReview_fallback_witness:
  "http_post (fixed_world (Inl refused) (Inl (http_failure 500 None)) (Inr (printed (lit ''LGTM'') [])))
      (gen_url (OllamaLLM None None))
      (gen_body (OllamaLLM None None) (buildReviewPrompt (lit ''+ok'') some_context))
     = Inl (http_failure 500 None)
   \<and> fst (generateReview (fixed_world (Inl refused) (Inl (http_failure 500 None)) (Inr (printed (lit ''LGTM'') [])))
        (OllamaLLM None None) (lit ''+ok'') some_context) =
       \<lparr> success = True, review = Some (lit ''LGTM''),
         result_model = Some (lit ''gemma:2b''),
         result_method = Some (lit ''CLI''), error = None \<rparr>
   \<and> list_ex is_Exec
       (snd (generateReview (fixed_world (Inl refused) (Inl (http_failure 500 None)) (Inr (printed (lit ''LGTM'') [])))
          (OllamaLLM None None) (lit ''+ok'') some_context))
   \<and> http_post (fixed_world (Inl refused) (Inr (generated (JNum 123))) (Inr (printed (lit ''LGTM'') [])))
      (gen_url (OllamaLLM None None))
      (gen_body (OllamaLLM None None) (buildReviewPrompt (lit ''+ok'') some_context))
     = Inr (generated (JNum 123))
   \<and> fst (generateReview (fixed_world (Inl refused) (Inr (generated (JNum 123))) (Inr (printed (lit ''LGTM'') [])))
        (OllamaLLM None None) (lit ''+ok'') some_context) =
       \<lparr> success = True, review = Some (lit ''LGTM''),
         result_model = Some (lit ''gemma:2b''),
         result_method = Some (lit ''CLI''), error = None \<rparr>
   \<and> list_ex is_Exec
       (snd (generateReview (fixed_world (Inl refused) (Inr (generated (JNum 123))) (Inr (printed (lit ''LGTM'') [])))
          (OllamaLLM None None) (lit ''+ok'') some_context))
   \<and> http_post (fixed_world (Inl refused) (Inr \<lparr> gen_data = None \<rparr>) (Inr (printed (lit ''LGTM'') [])))
      (gen_url (OllamaLLM None None))
      (gen_body (OllamaLLM None None) (buildReviewPrompt (lit ''+ok'') some_context))
     = Inr \<lparr> gen_data = None \<rparr>
   \<and> fst (generateReview (fixed_world (Inl refused) (Inr \<lparr> gen_data = None \<rparr>) (Inr (printed (lit ''LGTM'') [])))
        (OllamaLLM None None) (lit ''+ok'') some_context) =
       \<lparr> success = False, review = None, result_model = None,
         result_method = None, error = Some (lit ''No response from Ollama'') \<rparr>"
proof -
  let ?self = "OllamaLLM None None"
  let ?d = "lit ''+ok''"
  let ?body = "gen_body ?self (buildReviewPrompt ?d some_context)"
  let ?out = "Inr (printed (lit ''LGTM'') []) :: js_error + exec_output"
  let ?w1 = "fixed_world (Inl refused) (Inl (http_failure 500 None)) ?out"
  let ?w2 = "fixed_world (Inl refused) (Inr (generated (JNum 123))) ?out"
  let ?w3 = "fixed_world (Inl refused) (Inr \<lparr> gen_data = None \<rparr>) ?out"
  let ?ok = "\<lparr> success = True, review = Some (lit ''LGTM''),
         result_model = Some (lit ''gemma:2b''),
         result_method = Some (lit ''CLI''), error = None \<rparr>"
  have p1: "http_post ?w1 (gen_url ?self) ?body = Inl (http_failure 500 None)"
    and p2: "http_post ?w2 (gen_url ?self) ?body = Inr (generated (JNum 123))"
    and p3: "http_post ?w3 (gen_url ?self) ?body = Inr \<lparr> gen_data = None \<rparr>"
    by (simp_all add: fixed_world_def)
  note inst1 = generateReview_fallback [of ?w1 ?self ?d some_context]
  note inst2 = generateReview_fallback [of ?w2 ?self ?d some_context]
  note inst3 = generateReview_fallback [of ?w3 ?self ?d some_context]
  have cli: "fst (generateReviewCLI (fixed_world g p ?out) ?self ?d some_context) = ?ok" for g p
    by (simp add: generateReviewCLI_def Let_def fixed_world_def printed_def trim_def
        is_space_def OllamaLLM_def or_default_def lit_def)
  have malformed: "gen_data (generated (JNum 123)) = Some \<lparr> response = JNum 123 \<rparr>
      \<and> truthy (response \<lparr> response = JNum 123 \<rparr>)
      \<and> (\<forall>s. response \<lparr> response = JNum 123 \<rparr> \<noteq> JStr s)"
    by (simp add: generated_def)
  have absent: "case gen_data \<lparr> gen_data = None \<rparr> of None \<Rightarrow> True | Some b \<Rightarrow> \<not> truthy (response b)"
    by simp
  have r1: "fst (generateReview ?w1 ?self ?d some_context) = ?ok"
    using inst1 p1 cli by simp
  have x1: "list_ex is_Exec (snd (generateReview ?w1 ?self ?d some_context))"
    using inst1 p1 by simp
  have both2: "fst (generateReview ?w2 ?self ?d some_context)
        = fst (generateReviewCLI ?w2 ?self ?d some_context)
      \<and> snd (generateReview ?w2 ?self ?d some_context) =
         [HttpPost (gen_url ?self) ?body,
          Exec (cli_command ?self (buildReviewPrompt ?d some_context)) cli_options]"
    using inst2 p2 malformed by blast
  have r2: "fst (generateReview ?w2 ?self ?d some_context) = ?ok"
    using both2 cli by simp
  have x2: "list_ex is_Exec (snd (generateReview ?w2 ?self ?d some_context))"
    using both2 by simp
  have r3: "fst (generateReview ?w3 ?self ?d some_context) =
       \<lparr> success = False, review = None, result_model = None,
         result_method = None, error = Some (lit ''No response from Ollama'') \<rparr>"
    using inst3 p3 absent by blast
  from p1 r1 x1 p2 r2 x2 p3 r3 show ?thesis
    by blast
qed

text \<open>An empty output member: the primary path fails and the subprocess is not run.\<close>

theorem generateReview_empty_output_counterexample:
  "\<not> success (fst (generateReview
        (fixed_world (Inl refused) (Inr (generated (JStr []))) (Inr (printed (lit ''LGTM'') [])))
        (OllamaLLM None None) (lit ''+ok'') some_context))
   \<and> \<not> list_ex is_Exec (snd (generateReview
        (fixed_world (Inl refused) (Inr (generated (JStr []))) (Inr (printed (lit ''LGTM'') [])))
        (OllamaLLM None None) (lit ''+ok'') some_context))"
  by (simp add: generateReview_def generateReview_try_def Let_def fixed_world_def generated_def)

text \<open>
  Claim C2, as the code has it. A successful result of the primary path carries no
  \<open>method\<close> member; the analyze route of server.js reports \<open>method || 'API'\<close>, that
  is \<open>API\<close>. When the primary path threw and the fallback succeeded, the result
  carries the method \<open>CLI\<close>.
\<close>

theorem generateReview_method:
  assumes "success (fst (generateReview w self d ctx))"
  shows "(\<forall>r. generateReview_try w self d ctx = Inr r \<longrightarrow>
            result_method (fst (generateReview w self d ctx)) = None
          \<and> reported_method (fst (generateReview w self d ctx)) = lit ''API'')
       \<and> (\<forall>x. generateReview_try w self d ctx = Inl x \<longrightarrow>
            result_method (fst (generateReview w self d ctx)) = Some (lit ''CLI'')
          \<and> reported_method (fst (generateReview w self d ctx)) = lit ''CLI'')
       \<and> (\<forall>resp. http_post w (gen_url self) (gen_body self (buildReviewPrompt d ctx)) = Inr resp
             \<and> (\<forall>b. gen_data resp = Some b \<and> truthy (response b) \<longrightarrow> (\<exists>s. response b = JStr s)) \<longrightarrow>
            result_method (fst (generateReview w self d ctx)) = None
          \<and> reported_method (fst (generateReview w self d ctx)) = lit ''API'')
       \<and> (\<forall>e. http_post w (gen_url self) (gen_body self (buildReviewPrompt d ctx)) = Inl e \<longrightarrow>
            result_method (fst (generateReview w self d ctx)) = Some (lit ''CLI'')
          \<and> reported_method (fst (generateReview w self d ctx)) = lit ''CLI'')"
proof -
  have api: "result_method (fst (generateReview w self d ctx)) = None
          \<and> reported_method (fst (generateReview w self d ctx)) = lit ''API''"
    if "generateReview_try w self d ctx = Inr r" for r
  proof -
    have eq: "fst (generateReview w self d ctx) = r"
      by (simp add: generateReview_returned [OF that])
    with assms have "result_method r = None"
      using generateReview_try_success [OF that] by simp
    with eq show ?thesis
      by (simp add: reported_method_def or_default_def)
  qed
  have cli: "result_method (fst (generateReview w self d ctx)) = Some (lit ''CLI'')
          \<and> reported_method (fst (generateReview w self d ctx)) = lit ''CLI''"
    if "generateReview_try w self d ctx = Inl x" for x
  proof -
    have eq: "fst (generateReview w self d ctx) = fst (generateReviewCLI w self d ctx)"
      by (simp add: generateReview_thrown [OF that])
    with assms have "result_method (fst (generateReviewCLI w self d ctx)) = Some (lit ''CLI'')"
      using generateReviewCLI_success by simp
    with eq show ?thesis
      by (simp add: reported_method_def or_default_def lit_def)
  qed
  have returned: "\<exists>r. generateReview_try w self d ctx = Inr r"
    if "http_post w (gen_url self) (gen_body self (buildReviewPrompt d ctx)) = Inr resp"
      and "\<forall>b. gen_data resp = Some b \<and> truthy (response b) \<longrightarrow> (\<exists>s. response b = JStr s)"
    for resp
    using that
    by (auto simp: generateReview_try_def Let_def split: option.splits)
  show ?thesis
    using api cli returned generateReview_try_rejected by blast
qed


theorem generateReview_method_witness:
  "success (fst (generateReview
      (fixed_world (Inl refused) (Inr (generated (JStr (lit ''LGTM'')))) (Inl refused))
      (OllamaLLM None None) (lit ''+ok'') some_context))
   \<and> reported_method (fst (generateReview
      (fixed_world (Inl refused) (Inr (generated (JStr (lit ''LGTM'')))) (Inl refused))
      (OllamaLLM None None) (lit ''+ok'') some_context)) = lit ''API''
   \<and> success (fst (generateReview
      (fixed_world (Inl refused) (Inl refused) (Inr (printed (lit ''LGTM'') [])))
      (OllamaLLM None None) (lit ''+ok'') some_context))
   \<and> result_method (fst (generateReview
      (fixed_world (Inl refused) (Inl refused) (Inr (printed (lit ''LGTM'') [])))
      (OllamaLLM None None) (lit ''+ok'') some_context)) = Some (lit ''CLI'')
   \<and> success (fst (generateReview
      (fixed_world (Inl refused) (Inr (generated JObject)) (Inr (printed (lit ''LGTM'') [])))
      (OllamaLLM None None) (lit ''+ok'') some_context))
   \<and> result_method (fst (generateReview
      (fixed_world (Inl refused) (Inr (generated JObject)) (Inr (printed (lit ''LGTM'') [])))
      (OllamaLLM None None) (lit ''+ok'') some_context)) = Some (lit ''CLI'')"
proof -
  let ?self = "OllamaLLM None None"
  let ?d = "lit ''+ok''"
  let ?body = "gen_body ?self (buildReviewPrompt ?d some_context)"
  let ?out = "Inr (printed (lit ''LGTM'') []) :: js_error + exec_output"
  let ?w1 = "fixed_world (Inl refused) (Inr (generated (JStr (lit ''LGTM'')))) (Inl refused)"
  let ?w2 = "fixed_world (Inl refused) (Inl refused) ?out"
  let ?w3 = "fixed_world (Inl refused) (Inr (generated JObject)) ?out"
  have p1: "http_post ?w1 (gen_url ?self) ?body = Inr (generated (JStr (lit ''LGTM'')))"
    and p2: "http_post ?w2 (gen_url ?self) ?body = Inl refused"
    and p3: "http_post ?w3 (gen_url ?self) ?body = Inr (generated JObject)"
    by (simp_all add: fixed_world_def)
  have t1: "generateReview_try ?w1 ?self ?d some_context =
      Inr \<lparr> success = True, review = Some (trim (lit ''LGTM'')),
            result_model = Some (model ?self), result_method = None, error = None \<rparr>"
    using generateReview_try_output [OF p1, of "\<lparr> response = JStr (lit ''LGTM'') \<rparr>" "lit ''LGTM''"]
    by (simp add: generated_def lit_def)
  have t2: "generateReview_try ?w2 ?self ?d some_context = Inl (Rejected refused)"
    by (rule generateReview_try_rejected [OF p2])
  have t3: "generateReview_try ?w3 ?self ?d some_context = Inl (Raised TypeError)"
    using generateReview_try_malformed [OF p3, of "\<lparr> response = JObject \<rparr>"]
    by (simp add: generated_def)
  have cli: "success (fst (generateReviewCLI (fixed_world g p ?out) ?self ?d some_context))" for g p
    by (simp add: generateReviewCLI_def Let_def fixed_world_def printed_def lit_def)
  have s1: "success (fst (generateReview ?w1 ?self ?d some_context))"
    by (simp add: generateReview_returned [OF t1])
  have s2: "success (fst (generateReview ?w2 ?self ?d some_context))"
    using cli by (simp add: generateReview_thrown [OF t2])
  have s3: "success (fst (generateReview ?w3 ?self ?d some_context))"
    using cli by (simp add: generateReview_thrown [OF t3])
  from generateReview_method [OF s1] t1
  have m1: "reported_method (fst (generateReview ?w1 ?self ?d some_context)) = lit ''API''"
    by blast
  from generateReview_method [OF s2] p2
  have m2: "result_method (fst (generateReview ?w2 ?self ?d some_context)) = Some (lit ''CLI'')"
    by blast
  from generateReview_method [OF s3] t3
  have m3: "result_method (fst (generateReview ?w3 ?self ?d some_context)) = Some (lit ''CLI'')"
    by blast
  from s1 m1 s2 m2 s3 m3 show ?thesis
    by blast
qed

theorem generateReview_method_counterexample:
  "success (fst (generateReview
      (fixed_world (Inl refused) (Inr (generated (JStr (lit ''LGTM'')))) (Inl refused))
      (OllamaLLM None None) (lit ''+ok'') some_context))
   \<and> result_method (fst (generateReview
      (fixed_world (Inl refused) (Inr (generated (JStr (lit ''LGTM'')))) (Inl refused))
      (OllamaLLM None None) (lit ''+ok'') some_context)) = None"
  by (simp add: generateReview_def generateReview_try_def Let_def fixed_world_def
      generated_def lit_def)

section \<open>The error classifier\<close>

lemma getSuggestion_values:
  "getSuggestion (lit ''GITHUB_AUTH'') = lit ''Visit http://localhost:5000/auth/login to re-authenticate''"
  "getSuggestion (lit ''RATE_LIMIT'') = lit ''Wait for the rate limit to reset, or use a personal access token''"
  "getSuggestion (lit ''INVALID_REPO'') = lit ''Check the repository name and your access permissions''"
  "getSuggestion (lit ''INVALID_PR'') = lit ''Verify the pull request number exists''"
  "getSuggestion (lit ''NETWORK_ERROR'') = lit ''Check your internet connection and try again''"
  "getSuggestion (lit ''OLLAMA_DOWN'') = lit ''Run: ollama serve''"
  by (simp_all add: getSuggestion_def suggestions_def or_default_def lit_def)

lemma createError_None:
  "createError t m None = \<lparr> ce_type = t, ce_message = m, ce_suggestion = getSuggestion t \<rparr>"
  by (simp add: createError_def or_default_def)

lemma handle_with_status:
  assumes "err_response e = Some r" and "status r \<noteq> 0"
  shows "handle e = handle_status (status r) (data r)"
  using assms by (simp add: handle_def)

text \<open>
  The status rule on a failure whose reply has a body: the status alone decides, before
  every other rule. The branches for 401 and 404 do not need the body.
\<close>

lemma handle_status_mapping:
  assumes "err_response e = Some r" and "status r \<noteq> 0"
  shows
    "(status r = 401 \<longrightarrow>
        handle e = Inr \<lparr> ce_type = lit ''GITHUB_AUTH'',
          ce_message = lit ''Invalid or expired GitHub token. Please re-authenticate.'',
          ce_suggestion = lit ''Visit http://localhost:5000/auth/login to re-authenticate'' \<rparr>)
   \<and> (status r = 404 \<longrightarrow>
        handle e = Inr \<lparr> ce_type = lit ''INVALID_PR'',
          ce_message = lit ''Pull request or repository not found.'',
          ce_suggestion = lit ''Verify the pull request number exists'' \<rparr>)
   \<and> (\<forall>b. data r = Some b \<longrightarrow>
        (status r = 403 \<longrightarrow>
          (\<forall>m. data_message b = Some m \<and> sublist (lit ''rate limit'') m \<longrightarrow>
             handle e = Inr \<lparr> ce_type = lit ''RATE_LIMIT'',
               ce_message = m @ lit ''. Try again later.'',
               ce_suggestion = lit ''Wait for the rate limit to reset, or use a personal access token'' \<rparr>)
        \<and> ((\<forall>m. data_message b = Some m \<longrightarrow> \<not> sublist (lit ''rate limit'') m) \<longrightarrow>
             handle e = Inr \<lparr> ce_type = lit ''INVALID_REPO'',
               ce_message = lit ''Access denied or repository not found.'',
               ce_suggestion = lit ''Check the repository name and your access permissions'' \<rparr>))
      \<and> (status r = 422 \<longrightarrow>
          handle e = Inr \<lparr> ce_type = lit ''INVALID_REPO'',
            ce_message = lit ''GitHub API error: ''
                         @ or_default (data_message b) (lit ''Invalid request''),
            ce_suggestion = lit ''Check the repository name and your access permissions'' \<rparr>)
      \<and> (status r \<noteq> 401 \<and> status r \<noteq> 403 \<and> status r \<noteq> 404 \<and> status r \<noteq> 422 \<longrightarrow>
          handle e = Inr \<lparr> ce_type = lit ''NETWORK_ERROR'',
            ce_message = lit ''GitHub API error ('' @ digits (status r) @ lit ''): ''
                         @ or_default (data_message b) (lit ''Unknown error''),
            ce_suggestion = lit ''Check your internet connection and try again'' \<rparr>))"
proof -
  have rate_nonempty: "m \<noteq> []" if "sublist (lit ''rate limit'') m" for m
    using that by (auto simp: lit_def)
  show ?thesis
    unfolding handle_with_status [OF assms]
    using rate_nonempty
    by (auto simp: handle_status_def createError_None getSuggestion_values
        str_includes_sublist split: option.splits)
qed

lemma handle_status_no_body:
  assumes "err_response e = Some r" and "status r \<noteq> 0" and "data r = None"
    and "status r \<noteq> 401" and "status r \<noteq> 404"
  shows "handle e = Inl TypeError"
  using assms by (simp add: handle_with_status handle_status_def)

text \<open>
  Claim C7 at failures that carry an upstream status and a null body: the branches
  for 403, 422 and every other status read \<open>data.message\<close> and \<open>handle\<close> throws,
  where the claim gives the resource that is not found, the invalid request and the
  generic upstream error. With a body the status rule gives the outputs of the claim,
  and 401 and 404 give them without reading the body.
\<close>

theorem handle_status_null_body:
  "handle (http_failure_no_body 500) = Inl TypeError
   \<and> handle (http_failure_no_body 403) = Inl TypeError
   \<and> handle (http_failure_no_body 422) = Inl TypeError
   \<and> handle (http_failure_no_body 404) =
       Inr \<lparr> ce_type = lit ''INVALID_PR'',
             ce_message = lit ''Pull request or repository not found.'',
             ce_suggestion = lit ''Verify the pull request number exists'' \<rparr>"
  by (simp add: handle_def handle_status_def http_failure_no_body_def createError_None
      getSuggestion_values)

text \<open>
  Claim C6 at a failure value without any member: the timeout rule reads
  \<open>error.message.includes\<close> on an absent message, and \<open>handle\<close> throws instead of
  returning the unknown error. On a failure without an upstream status and with a
  message it returns on every path, and a failure matched by no earlier rule is the
  unknown error with that message.
\<close>

theorem handle_bare_error: "handle bare_error = Inl TypeError"
  by (simp add: handle_def bare_error_def)

lemma handle_with_message:
  assumes "err_response e = None" and "err_message e = Some m"
  shows "\<exists>c. handle e = Inr c"
  using assms by (auto simp: handle_def split: option.splits)

lemma handle_unmatched:
  assumes "err_response e = None"
    and "err_code e \<noteq> Some (lit ''ECONNREFUSED'')"
    and "err_code e \<noteq> Some (lit ''ENOTFOUND'')"
    and "err_code e \<noteq> Some (lit ''ECONNRESET'')"
    and "err_code e \<noteq> Some (lit ''ECONNABORTED'')"
    and "err_message e = Some m"
    and "\<not> sublist (lit ''timeout'') m"
  shows "handle e = Inr \<lparr> ce_type = lit ''UNKNOWN_ERROR'',
           ce_message = or_default (Some m) (lit ''An unexpected error occurred''),
           ce_suggestion = lit ''Please check the logs for more details'' \<rparr>"
  using assms by (simp add: handle_def str_includes_sublist)

end
